theory Spec2Isabelle
  imports Complex_Main
begin

section \<open>Data model (src/lib/types.ts and the fields src/lib/offers.ts reads)\<close>

text \<open>
  JavaScript numbers that hold money, rates and fractions are modelled as exact reals;
  instants (milliseconds since the epoch, as \<open>Date.now()\<close> returns them) as integers.
  An optional property (\<open>field?: T\<close>, read with \<open>??\<close>) is an \<open>option\<close>.
  The field \<open>id\<close> is called \<open>ident\<close> and \<open>note\<close> is called \<open>note_text\<close>,
  since the source's names are taken in HOL.
\<close>

datatype OfferStatus = Active | Expired | Maxed | Archived

datatype OfferRewardType = Percentage | Threshold

datatype OfferCategory = Dining | Travel | Grocery | Gas | Online | Other

record Offer =
  ident :: string
  merchant :: string
  cardId :: string
  rate :: real
  cashbackCap :: real
  cashbackEarned :: real
  totalSpendTracked :: real
  expireAt :: int
  category :: OfferCategory
  note_text :: "string option"
  status :: OfferStatus
  archivedAt :: "int option"
  creditedToLifetime :: "bool option"
  createdAt :: int
  updatedAt :: int
  rewardType :: OfferRewardType
  rewardAmount :: "real option"
  spendThreshold :: "real option"

record OfferStats =
  earned :: real
  remainCashback :: real
  remainSpendToCap :: real
  percent :: real

section \<open>Offer math (src/lib/offers.ts)\<close>

definition EPSILON :: real where
  "EPSILON = 1 / 100"

text \<open>The nullish coalescing operator \<open>a ?? b\<close>.\<close>

definition nullish :: "'a option \<Rightarrow> 'a \<Rightarrow> 'a" where
  "nullish a b = (case a of None \<Rightarrow> b | Some v \<Rightarrow> v)"

definition recalcOfferProgress :: "Offer \<Rightarrow> Offer" where
  "recalcOfferProgress offer =
     (if rewardType offer = Threshold then
        (let threshold = nullish (spendThreshold offer) 0;
             reward = nullish (rewardAmount offer) (cashbackCap offer)
         in if threshold \<le> 0 then offer\<lparr>cashbackEarned := 0\<rparr>
            else (let earned = (if totalSpendTracked offer \<ge> threshold then reward else 0)
                  in offer\<lparr>cashbackEarned := min earned reward\<rparr>))
      else if rate offer \<le> 0 then offer
      else (let spendCap = cashbackCap offer / rate offer;
                effectiveSpend = min (totalSpendTracked offer) spendCap;
                earned = min (effectiveSpend * rate offer) (cashbackCap offer)
            in offer\<lparr>cashbackEarned := earned\<rparr>))"

definition computeOfferStats :: "Offer \<Rightarrow> OfferStats" where
  "computeOfferStats offer =
     (if rewardType offer = Threshold then
        (let threshold = nullish (spendThreshold offer) 0;
             reward = nullish (rewardAmount offer) (cashbackCap offer)
         in if threshold \<le> 0 then
              \<lparr>earned = cashbackEarned offer,
               remainCashback = max 0 (reward - cashbackEarned offer),
               remainSpendToCap = 0,
               percent = 0\<rparr>
            else (let earned = (if totalSpendTracked offer \<ge> threshold then reward else 0);
                      remainSpend = max 0 (threshold - totalSpendTracked offer);
                      remainCashback = max 0 (reward - earned);
                      percent = min (totalSpendTracked offer / threshold) 1
                  in \<lparr>earned = earned,
                      remainCashback = remainCashback,
                      remainSpendToCap = remainSpend,
                      percent = percent\<rparr>))
      else if rate offer \<le> 0 then
        \<lparr>earned = cashbackEarned offer,
         remainCashback = 0,
         remainSpendToCap = 0,
         percent = 0\<rparr>
      else (let spendCap = cashbackCap offer / rate offer;
                effectiveSpend = min (totalSpendTracked offer) spendCap;
                earned = min (effectiveSpend * rate offer) (cashbackCap offer);
                remainCashback = max 0 (cashbackCap offer - earned);
                remainSpendToCap = (if remainCashback > 0 then remainCashback / rate offer else 0);
                percent = (if cashbackCap offer > 0 then min (earned / cashbackCap offer) 1 else 0)
            in \<lparr>earned = earned,
                remainCashback = remainCashback,
                remainSpendToCap = remainSpendToCap,
                percent = percent\<rparr>))"

definition isMaxedOut :: "Offer \<Rightarrow> bool" where
  "isMaxedOut offer =
     (if status offer = Archived then False
      else if rewardType offer = Threshold then
        (let threshold = nullish (spendThreshold offer) 0
         in if threshold \<le> 0 then False
            else totalSpendTracked offer \<ge> threshold - EPSILON)
      else if cashbackCap offer \<le> 0 \<or> rate offer \<le> 0 then False
      else cashbackEarned offer \<ge> cashbackCap offer - EPSILON)"

text \<open>
  \<open>computeStatus\<close> reads the clock once (\<open>Date.now()\<close>); the reading is the
  parameter \<open>now\<close>.
\<close>

definition computeStatus :: "int \<Rightarrow> Offer \<Rightarrow> OfferStatus" where
  "computeStatus now offer =
     (if status offer = Archived then Archived
      else if now > expireAt offer then Expired
      else if isMaxedOut offer then Maxed
      else Active)"

definition normalizeOffer :: "int \<Rightarrow> Offer \<Rightarrow> Offer" where
  "normalizeOffer now offer =
     (let st = computeStatus now offer
      in if st \<noteq> status offer \<and> status offer \<noteq> Archived then offer\<lparr>status := st\<rparr>
         else offer)"

section \<open>Persistence (src/lib/db.ts)\<close>

record AppStats =
  stats_ident :: string
  lifetimeCashbackEarned :: real
  lastUpdatedAt :: int

text \<open>
  A Dexie table whose primary key is the inbound property \<open>id\<close>: the records in
  insertion order, looked up and replaced by the key read from the record.
\<close>

definition table_get :: "('r \<Rightarrow> string) \<Rightarrow> 'r list \<Rightarrow> string \<Rightarrow> 'r option" where
  "table_get key tbl k = find (\<lambda>r. key r = k) tbl"

definition table_put :: "('r \<Rightarrow> string) \<Rightarrow> 'r list \<Rightarrow> 'r \<Rightarrow> 'r list" where
  "table_put key tbl r =
     (if list_ex (\<lambda>x. key x = key r) tbl
      then map (\<lambda>x. if key x = key r then r else x) tbl
      else tbl @ [r])"

text \<open>
  The tables a transaction over \<open>[db.offers, db.stats]\<close> may touch; the other tables
  (\<open>cards\<close>, \<open>spendLogs\<close>) live in the extension of the record.
\<close>

record Store =
  offers :: "Offer list"
  stats :: "AppStats list"

subsection \<open>Schema upgrades\<close>

text \<open>
  The upgrade callbacks run on stored objects of an older shape, so the properties they
  test are optional here: \<open>None\<close> is an absent, \<open>undefined\<close> or \<open>null\<close> property.
  \<open>archivedAt\<close> is tested with \<open>in\<close>, which tells an absent property (\<open>None\<close>) from
  one that is present and holds \<open>undefined\<close> (\<open>Some None\<close>). The comparison
  \<open>next.rate > 0\<close> is false when \<open>rate\<close> is \<open>undefined\<close>. The properties the
  callbacks never read are the extension of the record.
\<close>

record StoredOffer =
  status_raw :: "string option"
  creditedToLifetime_raw :: "bool option"
  archivedAt_raw :: "int option option"
  rewardType_raw :: "string option"
  rewardAmount_raw :: "real option"
  spendThreshold_raw :: "real option"
  rate_raw :: "real option"
  cashbackCap_raw :: "real option"

text \<open>JavaScript truthiness of an optional string: absent and the empty string are falsy.\<close>

definition truthy :: "string option \<Rightarrow> bool" where
  "truthy s = (case s of None \<Rightarrow> False | Some v \<Rightarrow> v \<noteq> [])"

definition upgradeOfferV2 :: "'a StoredOffer_scheme \<Rightarrow> 'a StoredOffer_scheme" where
  "upgradeOfferV2 offer =
     (let next1 = (if \<not> truthy (status_raw offer)
                   then offer\<lparr>status_raw := Some ''active''\<rparr> else offer);
          next2 = (if creditedToLifetime_raw next1 = None
                   then next1\<lparr>creditedToLifetime_raw := Some False\<rparr> else next1);
          next3 = (if archivedAt_raw next2 = None
                   then next2\<lparr>archivedAt_raw := Some None\<rparr> else next2)
      in next3)"

definition upgradeStatsV2 :: "int \<Rightarrow> AppStats list \<Rightarrow> AppStats list" where
  "upgradeStatsV2 now statsTable =
     (case table_get stats_ident statsTable ''app'' of
        Some existing \<Rightarrow> statsTable
      | None \<Rightarrow>
          table_put stats_ident statsTable
            \<lparr>stats_ident = ''app'', lifetimeCashbackEarned = 0, lastUpdatedAt = now\<rparr>)"

text \<open>
  The version 2 upgrade: \<open>modify\<close> runs the callback on every offer, then the stats
  singleton is created when it is missing.
\<close>

definition upgradeV2 ::
  "int \<Rightarrow> 'a StoredOffer_scheme list \<times> AppStats list \<Rightarrow>
   'a StoredOffer_scheme list \<times> AppStats list" where
  "upgradeV2 now tx = (map upgradeOfferV2 (fst tx), upgradeStatsV2 now (snd tx))"

definition upgradeOfferV3 :: "'a StoredOffer_scheme \<Rightarrow> 'a StoredOffer_scheme" where
  "upgradeOfferV3 offer =
     (let next1 = (if \<not> truthy (rewardType_raw offer)
                   then offer\<lparr>rewardType_raw := Some ''percentage''\<rparr> else offer)
      in if rewardType_raw next1 = Some ''percentage'' then
           (let next2 = (if rewardAmount_raw next1 = None
                         then next1\<lparr>rewardAmount_raw := Some (nullish (cashbackCap_raw next1) 0)\<rparr>
                         else next1);
                next3 = (case rate_raw next2 of
                           None \<Rightarrow> next2
                         | Some r \<Rightarrow>
                             if spendThreshold_raw next2 = None \<and> r > 0
                             then next2\<lparr>spendThreshold_raw :=
                                    Some (nullish (cashbackCap_raw next2) 0 / r)\<rparr>
                             else next2)
            in next3)
         else
           (let next2 = (if rewardAmount_raw next1 = None
                         then next1\<lparr>rewardAmount_raw := Some (nullish (cashbackCap_raw next1) 0)\<rparr>
                         else next1);
                next3 = (if spendThreshold_raw next2 = None
                         then next2\<lparr>spendThreshold_raw := Some 0\<rparr>
                         else next2)
            in next3))"

definition upgradeV3 :: "'a StoredOffer_scheme list \<Rightarrow> 'a StoredOffer_scheme list" where
  "upgradeV3 offerTable = map upgradeOfferV3 offerTable"

subsection \<open>Lifecycle actions\<close>

datatype error = IndexedDBUnavailable

text \<open>
  \<open>getDb\<close> throws when the environment has no IndexedDB; the environment's database is
  \<open>None\<close> then.
\<close>

definition getDb :: "'db option \<Rightarrow> error + 'db" where
  "getDb env = (case env of None \<Rightarrow> Inl IndexedDBUnavailable | Some db \<Rightarrow> Inr db)"

text \<open>
  \<open>Number(x.toFixed(2))\<close>, after ECMAScript's \<open>Number.prototype.toFixed\<close>: the sign is
  split off, a magnitude of at least \<open>10^21\<close> is printed in full, and otherwise the
  nearest multiple of \<open>1/100\<close> is taken. The code rounds the IEEE double that holds
  the value. Away from a tie that double and the exact value have the same nearest
  cent. Where the exact value ends in half a cent, the double lies at the tie, just
  above it or just below it (\<open>12.1 * 0.05\<close> is \<open>0.60499999999999998\<close> and prints as
  \<open>0.60\<close>; \<open>12.3 * 0.05\<close> is \<open>0.6150000000000001\<close> and prints as \<open>0.62\<close>), which exact
  reals cannot tell; the direction is the parameter \<open>tie_up\<close>: true when the double
  is at or above the tie, which \<open>toFixed\<close> rounds to the larger magnitude.
\<close>

definition toFixed2 :: "bool \<Rightarrow> real \<Rightarrow> real" where
  "toFixed2 tie_up x =
     (let a = (if x < 0 then - x else x)
      in if a \<ge> 10 ^ 21 then x
         else (let n = (if a * 100 - of_int \<lfloor>a * 100\<rfloor> = 1 / 2 \<and> \<not> tie_up
                        then \<lfloor>a * 100\<rfloor>
                        else \<lfloor>a * 100 + 1 / 2\<rfloor>)
               in if x < 0 then - (of_int n / 100) else of_int n / 100))"

definition STATS_KEY :: string where
  "STATS_KEY = ''app''"

definition getOrCreateStats :: "int \<Rightarrow> 'a Store_scheme \<Rightarrow> AppStats \<times> 'a Store_scheme" where
  "getOrCreateStats now db =
     (case table_get stats_ident (stats db) STATS_KEY of
        Some existing \<Rightarrow> (existing, db)
      | None \<Rightarrow>
          (let st = \<lparr>stats_ident = STATS_KEY, lifetimeCashbackEarned = 0, lastUpdatedAt = now\<rparr>
           in (st, db\<lparr>stats := table_put stats_ident (stats db) st\<rparr>)))"

text \<open>
  What one call of \<open>archiveOffer\<close> observes outside the store: the readings of
  \<open>Date.now()\<close> it may take, in the order of the source, and on which side of a tie
  the double of the credited sum lies (see \<open>toFixed2\<close>).
\<close>

record ArchiveClock =
  now_archivedAt :: int
  now_updatedAt :: int
  now_statsCreated :: int
  now_statsUpdated :: int
  now_status :: int
  sum_tie_up :: bool

definition archiveOffer ::
  "ArchiveClock \<Rightarrow> string \<Rightarrow> 'a Store_scheme option \<Rightarrow> error + 'a Store_scheme" where
  "archiveOffer clock offerId env =
     (case getDb env of
        Inl e \<Rightarrow> Inl e
      | Inr db \<Rightarrow>
          (case table_get ident (offers db) offerId of
             None \<Rightarrow> Inr db
           | Some offer \<Rightarrow>
               (let recalculated = recalcOfferProgress offer;
                    finalized = recalculated
                      \<lparr>status := Archived,
                       archivedAt :=
                         Some (nullish (archivedAt recalculated) (now_archivedAt clock)),
                       updatedAt := now_updatedAt clock\<rparr>;
                    (credited, db1) =
                      (if creditedToLifetime finalized \<noteq> Some True then
                         (let (st, db0) = getOrCreateStats (now_statsCreated clock) db;
                              st1 = st
                                \<lparr>lifetimeCashbackEarned :=
                                   toFixed2 (sum_tie_up clock)
                                     (lifetimeCashbackEarned st + cashbackEarned finalized),
                                 lastUpdatedAt := now_statsUpdated clock\<rparr>
                          in (finalized\<lparr>creditedToLifetime := Some True\<rparr>,
                              db0\<lparr>stats := table_put stats_ident (stats db0) st1\<rparr>))
                       else (finalized, db));
                    st = computeStatus (now_status clock) credited;
                    stored = credited\<lparr>status := st\<rparr>
                in Inr (db1\<lparr>offers := table_put ident (offers db1) stored\<rparr>))))"

section \<open>Sample data\<close>

definition exampleOffer :: Offer where
  "exampleOffer =
     \<lparr>ident = ''o1'', merchant = ''Cafe'', cardId = ''c1'', rate = 5 / 100,
      cashbackCap = 50, cashbackEarned = 0, totalSpendTracked = 0, expireAt = 1000,
      category = Dining, note_text = None, status = Active, archivedAt = None,
      creditedToLifetime = Some False, createdAt = 1, updatedAt = 1,
      rewardType = Percentage, rewardAmount = Some 50, spendThreshold = Some 1000\<rparr>"

definition roundingOffer :: Offer where
  "roundingOffer = exampleOffer\<lparr>rate := 3 / 100, totalSpendTracked := 101 / 10\<rparr>"

definition exampleStore :: Store where
  "exampleStore =
     \<lparr>offers = [roundingOffer],
      stats = [\<lparr>stats_ident = ''app'', lifetimeCashbackEarned = 0, lastUpdatedAt = 0\<rparr>]\<rparr>"

text \<open>
  Five per cent of \<open>12.10\<close> is \<open>0.605\<close>, a tie between \<open>0.60\<close> and \<open>0.61\<close>; the double
  the code computes is \<open>0.60499999999999998\<close>, below the tie.
\<close>

definition tieOffer :: Offer where
  "tieOffer = exampleOffer\<lparr>totalSpendTracked := 121 / 10\<rparr>"

definition tieStore :: Store where
  "tieStore =
     \<lparr>offers = [tieOffer],
      stats = [\<lparr>stats_ident = ''app'', lifetimeCashbackEarned = 0, lastUpdatedAt = 0\<rparr>]\<rparr>"

definition exampleClock :: ArchiveClock where
  "exampleClock =
     \<lparr>now_archivedAt = 5000, now_updatedAt = 5001, now_statsCreated = 5002,
      now_statsUpdated = 5003, now_status = 5004, sum_tie_up = False\<rparr>"

definition laterClock :: ArchiveClock where
  "laterClock =
     \<lparr>now_archivedAt = 9000, now_updatedAt = 9001, now_statsCreated = 9002,
      now_statsUpdated = 9003, now_status = 9004, sum_tie_up = True\<rparr>"

definition legacyOffer :: StoredOffer where
  "legacyOffer =
     \<lparr>status_raw = None, creditedToLifetime_raw = None, archivedAt_raw = None,
      rewardType_raw = None, rewardAmount_raw = None, spendThreshold_raw = None,
      rate_raw = Some (5 / 100), cashbackCap_raw = Some 50\<rparr>"

definition currentOffer :: StoredOffer where
  "currentOffer =
     \<lparr>status_raw = Some ''archived'', creditedToLifetime_raw = Some True,
      archivedAt_raw = Some (Some 7000), rewardType_raw = Some ''threshold'',
      rewardAmount_raw = Some 25, spendThreshold_raw = Some 125,
      rate_raw = Some (1 / 5), cashbackCap_raw = Some 25\<rparr>"

text \<open>
  The lifetime total a stats table holds: the singleton's \<open>lifetimeCashbackEarned\<close>,
  and \<open>0\<close> while the singleton is missing (the value \<open>getOrCreateStats\<close> seeds it with).
\<close>

definition lifetimeTotal :: "AppStats list \<Rightarrow> real" where
  "lifetimeTotal tbl =
     (case table_get stats_ident tbl STATS_KEY of
        None \<Rightarrow> 0
      | Some st \<Rightarrow> lifetimeCashbackEarned st)"

section \<open>Properties of the offer math\<close>

text \<open>
  Claim C1, as the code has it: for a percentage offer with \<open>rate \<le> 0\<close>,
  \<open>computeOfferStats\<close> returns \<open>remainCashback = 0\<close>, \<open>remainSpendToCap = 0\<close> and
  \<open>percent = 0\<close>, and \<open>earned\<close> is the stored \<open>cashbackEarned\<close>, whatever
  \<open>totalSpendTracked\<close> is.
\<close>

theorem computeOfferStats_rate_nonpos:
  "rewardType offer = Percentage \<Longrightarrow> rate offer \<le> 0 \<Longrightarrow>
   computeOfferStats offer =
     \<lparr>earned = cashbackEarned offer, remainCashback = 0, remainSpendToCap = 0, percent = 0\<rparr>"
  by (simp add: computeOfferStats_def)

theorem computeOfferStats_rate_nonpos_witness:
  "rewardType (exampleOffer\<lparr>rate := 0, cashbackEarned := 10\<rparr>) = Percentage \<and>
   rate (exampleOffer\<lparr>rate := 0, cashbackEarned := 10\<rparr>) \<le> 0 \<and>
   computeOfferStats (exampleOffer\<lparr>rate := 0, cashbackEarned := 10\<rparr>) =
     \<lparr>earned = 10, remainCashback = 0, remainSpendToCap = 0, percent = 0\<rparr>"
  using computeOfferStats_rate_nonpos [of "exampleOffer\<lparr>rate := 0, cashbackEarned := 10\<rparr>"]
  by (simp add: exampleOffer_def)

text \<open>
  A percentage offer with rate \<open>0\<close> and a stored \<open>cashbackEarned\<close> of \<open>10\<close>: the
  projection's \<open>earned\<close> is not zero.
\<close>

theorem computeOfferStats_all_zeros_counterexample:
  "rewardType (exampleOffer\<lparr>rate := 0, cashbackEarned := 10\<rparr>) = Percentage \<and>
   rate (exampleOffer\<lparr>rate := 0, cashbackEarned := 10\<rparr>) \<le> 0 \<and>
   earned (computeOfferStats (exampleOffer\<lparr>rate := 0, cashbackEarned := 10\<rparr>)) \<noteq> 0"
  by (simp add: exampleOffer_def computeOfferStats_def)

subsection \<open>Status normalization\<close>

lemma computeStatus_not_archived:
  "status offer \<noteq> Archived \<Longrightarrow> computeStatus now offer \<noteq> Archived"
  by (simp add: computeStatus_def)

lemma isMaxedOut_status_update:
  "status offer \<noteq> Archived \<Longrightarrow> st \<noteq> Archived \<Longrightarrow>
   isMaxedOut (offer\<lparr>status := st\<rparr>) = isMaxedOut offer"
  by (simp add: isMaxedOut_def)

lemma computeStatus_status_update:
  "status offer \<noteq> Archived \<Longrightarrow> st \<noteq> Archived \<Longrightarrow>
   computeStatus now (offer\<lparr>status := st\<rparr>) = computeStatus now offer"
  by (simp add: computeStatus_def isMaxedOut_status_update)

lemma normalizeOffer_status:
  "status (normalizeOffer now offer) = computeStatus now offer"
  by (simp add: normalizeOffer_def Let_def computeStatus_def)

lemma normalizeOffer_fixed:
  "status offer = computeStatus now offer \<Longrightarrow> normalizeOffer now offer = offer"
  by (simp add: normalizeOffer_def Let_def)

text \<open>
  Claim C2: at one reading of the clock, \<open>normalizeOffer\<close> is idempotent, and an offer
  whose stored status already is the computed one comes back unchanged.
\<close>

theorem normalizeOffer_idempotent:
  "normalizeOffer now (normalizeOffer now offer) = normalizeOffer now offer \<and>
   (status offer = computeStatus now offer \<longrightarrow> normalizeOffer now offer = offer)"
proof -
  have "computeStatus now (normalizeOffer now offer) = computeStatus now offer"
  proof (cases "status offer = Archived")
    case True
    then show ?thesis by (simp add: normalizeOffer_def Let_def)
  next
    case False
    then show ?thesis
      using computeStatus_not_archived [of offer now]
      by (simp add: normalizeOffer_def Let_def computeStatus_status_update)
  qed
  then have "status (normalizeOffer now offer) = computeStatus now (normalizeOffer now offer)"
    by (simp add: normalizeOffer_status)
  then show ?thesis
    using normalizeOffer_fixed by blast
qed

theorem normalizeOffer_idempotent_witness:
  "normalizeOffer 2000 (normalizeOffer 2000 exampleOffer) = normalizeOffer 2000 exampleOffer \<and>
   normalizeOffer 2000 exampleOffer = exampleOffer\<lparr>status := Expired\<rparr> \<and>
   status (exampleOffer\<lparr>status := Expired\<rparr>) =
     computeStatus 2000 (exampleOffer\<lparr>status := Expired\<rparr>) \<and>
   normalizeOffer 2000 (exampleOffer\<lparr>status := Expired\<rparr>) = exampleOffer\<lparr>status := Expired\<rparr>"
  using normalizeOffer_idempotent [of 2000 exampleOffer]
    normalizeOffer_idempotent [of 2000 "exampleOffer\<lparr>status := Expired\<rparr>"]
  by (simp add: exampleOffer_def normalizeOffer_def computeStatus_def)

text \<open>
  Claim C3: \<open>computeStatus\<close> follows the precedence archived, expired, maxed, active.
  An archived offer stays archived; any other offer is expired exactly when
  \<open>now > expireAt\<close>, maxed exactly when it is not expired and \<open>isMaxedOut\<close> holds,
  and active otherwise; an offer both past its expiry and maxed out is expired.
\<close>

theorem computeStatus_precedence:
  "(status offer = Archived \<longrightarrow> computeStatus now offer = Archived) \<and>
   (status offer \<noteq> Archived \<longrightarrow>
      (computeStatus now offer = Expired \<longleftrightarrow> now > expireAt offer) \<and>
      (computeStatus now offer = Maxed \<longleftrightarrow> \<not> now > expireAt offer \<and> isMaxedOut offer) \<and>
      (computeStatus now offer = Active \<longleftrightarrow> \<not> now > expireAt offer \<and> \<not> isMaxedOut offer) \<and>
      computeStatus now offer \<noteq> Archived) \<and>
   (status offer \<noteq> Archived \<and> now > expireAt offer \<and> isMaxedOut offer \<longrightarrow>
      computeStatus now offer = Expired)"
  by (simp add: computeStatus_def)

theorem computeStatus_precedence_witness:
  "status (exampleOffer\<lparr>status := Archived\<rparr>) = Archived \<and>
   computeStatus 2000 (exampleOffer\<lparr>status := Archived\<rparr>) = Archived \<and>
   status (exampleOffer\<lparr>cashbackEarned := 50\<rparr>) \<noteq> Archived \<and>
   2000 > expireAt (exampleOffer\<lparr>cashbackEarned := 50\<rparr>) \<and>
   isMaxedOut (exampleOffer\<lparr>cashbackEarned := 50\<rparr>) \<and>
   computeStatus 2000 (exampleOffer\<lparr>cashbackEarned := 50\<rparr>) = Expired \<and>
   computeStatus 1000 (exampleOffer\<lparr>cashbackEarned := 50\<rparr>) = Maxed \<and>
   computeStatus 1000 exampleOffer = Active"
  using computeStatus_precedence [of "exampleOffer\<lparr>status := Archived\<rparr>" 2000]
    computeStatus_precedence [of "exampleOffer\<lparr>cashbackEarned := 50\<rparr>" 2000]
    computeStatus_precedence [of "exampleOffer\<lparr>cashbackEarned := 50\<rparr>" 1000]
    computeStatus_precedence [of exampleOffer 1000]
  by (simp add: exampleOffer_def isMaxedOut_def EPSILON_def)

subsection \<open>Threshold offers\<close>

text \<open>
  Claim C5, as the code has it: for a threshold offer whose \<open>spendThreshold\<close> is
  positive, \<open>earned\<close> is the reward once \<open>totalSpendTracked\<close> reaches the threshold
  and \<open>0\<close> before, the reward being \<open>rewardAmount\<close>, or \<open>cashbackCap\<close> when
  \<open>rewardAmount\<close> is absent; when \<open>spendThreshold\<close> is absent or not positive,
  \<open>earned\<close> is the stored \<open>cashbackEarned\<close>.
\<close>

theorem computeOfferStats_threshold_earned:
  "rewardType offer = Threshold \<Longrightarrow>
   (if nullish (spendThreshold offer) 0 \<le> 0
    then earned (computeOfferStats offer) = cashbackEarned offer
    else earned (computeOfferStats offer) =
           (if totalSpendTracked offer \<ge> nullish (spendThreshold offer) 0
            then nullish (rewardAmount offer) (cashbackCap offer) else 0) \<and>
         earned (computeOfferStats offer) \<in> {0, nullish (rewardAmount offer) (cashbackCap offer)})"
  by (simp add: computeOfferStats_def Let_def)

theorem computeOfferStats_threshold_earned_witness:
  "rewardType (exampleOffer\<lparr>rewardType := Threshold, spendThreshold := Some 125,
      rewardAmount := Some 25, totalSpendTracked := 130\<rparr>) = Threshold \<and>
   earned (computeOfferStats (exampleOffer\<lparr>rewardType := Threshold, spendThreshold := Some 125,
      rewardAmount := Some 25, totalSpendTracked := 130\<rparr>)) = 25 \<and>
   rewardType (exampleOffer\<lparr>rewardType := Threshold, spendThreshold := None,
      cashbackEarned := 10\<rparr>) = Threshold \<and>
   earned (computeOfferStats (exampleOffer\<lparr>rewardType := Threshold, spendThreshold := None,
      cashbackEarned := 10\<rparr>)) = 10"
  using computeOfferStats_threshold_earned [of "exampleOffer\<lparr>rewardType := Threshold,
      spendThreshold := Some 125, rewardAmount := Some 25, totalSpendTracked := 130\<rparr>"]
    computeOfferStats_threshold_earned [of "exampleOffer\<lparr>rewardType := Threshold,
      spendThreshold := None, cashbackEarned := 10\<rparr>"]
  by (simp add: exampleOffer_def nullish_def)

text \<open>
  A threshold offer with \<open>spendThreshold = 0\<close>, \<open>rewardAmount = 25\<close> and a stored
  \<open>cashbackEarned\<close> of \<open>10\<close>: \<open>earned\<close> is \<open>10\<close>, neither \<open>0\<close> nor the reward.
\<close>

theorem computeOfferStats_threshold_binary_counterexample:
  "rewardType (exampleOffer\<lparr>rewardType := Threshold, spendThreshold := Some 0,
      rewardAmount := Some 25, cashbackEarned := 10\<rparr>) = Threshold \<and>
   rewardAmount (exampleOffer\<lparr>rewardType := Threshold, spendThreshold := Some 0,
      rewardAmount := Some 25, cashbackEarned := 10\<rparr>) = Some 25 \<and>
   earned (computeOfferStats (exampleOffer\<lparr>rewardType := Threshold, spendThreshold := Some 0,
      rewardAmount := Some 25, cashbackEarned := 10\<rparr>)) = 10 \<and>
   (10 :: real) \<notin> {0, 25}"
  by (simp add: exampleOffer_def computeOfferStats_def nullish_def)

text \<open>
  Claim C6, as the code has it: for a threshold offer that is not archived, with
  \<open>spendThreshold = 125\<close> and \<open>rewardAmount = 25\<close>: at \<open>totalSpendTracked = 124.99\<close>,
  \<open>earned = 0\<close>, \<open>percent = 124.99 / 125\<close> and \<open>isMaxedOut\<close> is already true, since
  \<open>124.99 \<ge> 125 - 0.01\<close>; at \<open>totalSpendTracked = 125\<close>, \<open>earned = 25\<close>, \<open>percent = 1\<close>
  and \<open>isMaxedOut\<close> is true; \<open>isMaxedOut\<close> is false exactly below \<open>124.99\<close>.
\<close>

theorem threshold_125_scenario:
  "rewardType offer = Threshold \<Longrightarrow> spendThreshold offer = Some 125 \<Longrightarrow>
   rewardAmount offer = Some 25 \<Longrightarrow> status offer \<noteq> Archived \<Longrightarrow>
   (totalSpendTracked offer = 12499 / 100 \<longrightarrow>
      earned (computeOfferStats offer) = 0 \<and>
      percent (computeOfferStats offer) = (12499 / 100) / 125 \<and>
      isMaxedOut offer) \<and>
   (totalSpendTracked offer = 125 \<longrightarrow>
      earned (computeOfferStats offer) = 25 \<and>
      percent (computeOfferStats offer) = 1 \<and>
      isMaxedOut offer) \<and>
   (isMaxedOut offer \<longleftrightarrow> totalSpendTracked offer \<ge> 125 - 1 / 100)"
  by (simp add: computeOfferStats_def isMaxedOut_def nullish_def EPSILON_def Let_def)

theorem threshold_125_scenario_witness:
  "rewardType (exampleOffer\<lparr>rewardType := Threshold, spendThreshold := Some 125,
      rewardAmount := Some 25, totalSpendTracked := 12499 / 100\<rparr>) = Threshold \<and>
   status (exampleOffer\<lparr>rewardType := Threshold, spendThreshold := Some 125,
      rewardAmount := Some 25, totalSpendTracked := 12499 / 100\<rparr>) \<noteq> Archived \<and>
   earned (computeOfferStats (exampleOffer\<lparr>rewardType := Threshold, spendThreshold := Some 125,
      rewardAmount := Some 25, totalSpendTracked := 12499 / 100\<rparr>)) = 0 \<and>
   isMaxedOut (exampleOffer\<lparr>rewardType := Threshold, spendThreshold := Some 125,
      rewardAmount := Some 25, totalSpendTracked := 12499 / 100\<rparr>) \<and>
   earned (computeOfferStats (exampleOffer\<lparr>rewardType := Threshold, spendThreshold := Some 125,
      rewardAmount := Some 25, totalSpendTracked := 125\<rparr>)) = 25 \<and>
   isMaxedOut (exampleOffer\<lparr>rewardType := Threshold, spendThreshold := Some 125,
      rewardAmount := Some 25, totalSpendTracked := 125\<rparr>) \<and>
   \<not> isMaxedOut (exampleOffer\<lparr>rewardType := Threshold, spendThreshold := Some 125,
      rewardAmount := Some 25, totalSpendTracked := 12498 / 100\<rparr>)"
  using threshold_125_scenario [of "exampleOffer\<lparr>rewardType := Threshold,
      spendThreshold := Some 125, rewardAmount := Some 25, totalSpendTracked := 12499 / 100\<rparr>"]
    threshold_125_scenario [of "exampleOffer\<lparr>rewardType := Threshold,
      spendThreshold := Some 125, rewardAmount := Some 25, totalSpendTracked := 125\<rparr>"]
    threshold_125_scenario [of "exampleOffer\<lparr>rewardType := Threshold,
      spendThreshold := Some 125, rewardAmount := Some 25, totalSpendTracked := 12498 / 100\<rparr>"]
  by (simp add: exampleOffer_def)

text \<open>
  The scenario's offer at \<open>totalSpendTracked = 124.99\<close>: \<open>isMaxedOut\<close> does not
  return false.
\<close>

theorem threshold_124_99_maxed_counterexample:
  "rewardType (exampleOffer\<lparr>rewardType := Threshold, spendThreshold := Some 125,
      rewardAmount := Some 25, totalSpendTracked := 12499 / 100\<rparr>) = Threshold \<and>
   spendThreshold (exampleOffer\<lparr>rewardType := Threshold, spendThreshold := Some 125,
      rewardAmount := Some 25, totalSpendTracked := 12499 / 100\<rparr>) = Some 125 \<and>
   rewardAmount (exampleOffer\<lparr>rewardType := Threshold, spendThreshold := Some 125,
      rewardAmount := Some 25, totalSpendTracked := 12499 / 100\<rparr>) = Some 25 \<and>
   totalSpendTracked (exampleOffer\<lparr>rewardType := Threshold, spendThreshold := Some 125,
      rewardAmount := Some 25, totalSpendTracked := 12499 / 100\<rparr>) = 12499 / 100 \<and>
   isMaxedOut (exampleOffer\<lparr>rewardType := Threshold, spendThreshold := Some 125,
      rewardAmount := Some 25, totalSpendTracked := 12499 / 100\<rparr>) \<noteq> False"
  by (simp add: exampleOffer_def isMaxedOut_def nullish_def EPSILON_def)

subsection \<open>Range of the progress fraction\<close>

lemma percent_le_1: "percent (computeOfferStats offer) \<le> 1"
  by (simp add: computeOfferStats_def Let_def)

lemma percent_ge_0:
  assumes "0 \<le> totalSpendTracked offer"
  shows "0 \<le> percent (computeOfferStats offer)"
proof (cases "rewardType offer = Threshold")
  case True
  then show ?thesis using assms
    by (simp add: computeOfferStats_def Let_def)
next
  case False
  show ?thesis
  proof (cases "rate offer \<le> 0 \<or> cashbackCap offer \<le> 0")
    case True
    then show ?thesis using False
      by (auto simp add: computeOfferStats_def Let_def)
  next
    case False
    then have r: "0 < rate offer" and c: "0 < cashbackCap offer" by auto
    have "0 \<le> min (totalSpendTracked offer) (cashbackCap offer / rate offer)"
      using assms r c by simp
    then have "0 \<le> min (min (totalSpendTracked offer) (cashbackCap offer / rate offer) * rate offer)
        (cashbackCap offer)"
      using r c by simp
    then show ?thesis using r c \<open>rewardType offer \<noteq> Threshold\<close>
      by (simp add: computeOfferStats_def Let_def)
  qed
qed

text \<open>
  Claim C7, as the code has it: for every offer \<open>percent\<close> is at most \<open>1\<close>, and it is
  at least \<open>0\<close> whenever \<open>totalSpendTracked\<close> is not negative (whatever the other stored
  fields are); the code clamps the fraction from above only.
\<close>

theorem computeOfferStats_percent_range:
  "percent (computeOfferStats offer) \<le> 1 \<and>
   (0 \<le> totalSpendTracked offer \<longrightarrow> 0 \<le> percent (computeOfferStats offer))"
  using percent_le_1 percent_ge_0 by blast

theorem computeOfferStats_percent_range_witness:
  "0 \<le> totalSpendTracked (exampleOffer\<lparr>totalSpendTracked := 500\<rparr>) \<and>
   percent (computeOfferStats (exampleOffer\<lparr>totalSpendTracked := 500\<rparr>)) = 1 / 2 \<and>
   0 \<le> percent (computeOfferStats (exampleOffer\<lparr>totalSpendTracked := 500\<rparr>)) \<and>
   percent (computeOfferStats (exampleOffer\<lparr>totalSpendTracked := 500\<rparr>)) \<le> 1"
  using computeOfferStats_percent_range [of "exampleOffer\<lparr>totalSpendTracked := 500\<rparr>"]
  by (simp add: exampleOffer_def computeOfferStats_def)

text \<open>
  A threshold offer (threshold \<open>100\<close>) and a percentage offer (rate \<open>0.05\<close>, cap
  \<open>50\<close>) with negative \<open>totalSpendTracked\<close>: \<open>percent\<close> is \<open>-1/2\<close> for both.
\<close>

theorem computeOfferStats_percent_negative_counterexample:
  "percent (computeOfferStats (exampleOffer\<lparr>rewardType := Threshold, spendThreshold := Some 100,
      totalSpendTracked := - 50\<rparr>)) = - 1 / 2 \<and>
   percent (computeOfferStats (exampleOffer\<lparr>totalSpendTracked := - 500\<rparr>)) = - 1 / 2 \<and>
   \<not> (0 \<le> percent (computeOfferStats (exampleOffer\<lparr>rewardType := Threshold,
      spendThreshold := Some 100, totalSpendTracked := - 50\<rparr>)))"
  by (simp add: exampleOffer_def computeOfferStats_def nullish_def)

subsection \<open>What recalcOfferProgress leaves alone\<close>

lemma recalcOfferProgress_credited:
  "creditedToLifetime (recalcOfferProgress offer) = creditedToLifetime offer"
  by (simp add: recalcOfferProgress_def Let_def)

lemma recalcOfferProgress_ident:
  "ident (recalcOfferProgress offer) = ident offer"
  by (simp add: recalcOfferProgress_def Let_def)

text \<open>
  Claim C10: \<open>recalcOfferProgress\<close> changes at most \<open>cashbackEarned\<close>: its result is
  the input with that one field updated, so \<open>id\<close>, \<open>status\<close>, \<open>rewardType\<close>, \<open>rate\<close>,
  \<open>cashbackCap\<close>, \<open>spendThreshold\<close>, \<open>rewardAmount\<close>, \<open>totalSpendTracked\<close>,
  \<open>expireAt\<close>, \<open>archivedAt\<close>, \<open>creditedToLifetime\<close> and the timestamps agree with the
  input; for a percentage offer with \<open>rate \<le> 0\<close> the input is returned as it is.
\<close>

theorem recalcOfferProgress_frame:
  "recalcOfferProgress offer =
     offer\<lparr>cashbackEarned := cashbackEarned (recalcOfferProgress offer)\<rparr> \<and>
   ident (recalcOfferProgress offer) = ident offer \<and>
   status (recalcOfferProgress offer) = status offer \<and>
   rewardType (recalcOfferProgress offer) = rewardType offer \<and>
   rate (recalcOfferProgress offer) = rate offer \<and>
   cashbackCap (recalcOfferProgress offer) = cashbackCap offer \<and>
   spendThreshold (recalcOfferProgress offer) = spendThreshold offer \<and>
   rewardAmount (recalcOfferProgress offer) = rewardAmount offer \<and>
   totalSpendTracked (recalcOfferProgress offer) = totalSpendTracked offer \<and>
   expireAt (recalcOfferProgress offer) = expireAt offer \<and>
   archivedAt (recalcOfferProgress offer) = archivedAt offer \<and>
   creditedToLifetime (recalcOfferProgress offer) = creditedToLifetime offer \<and>
   createdAt (recalcOfferProgress offer) = createdAt offer \<and>
   updatedAt (recalcOfferProgress offer) = updatedAt offer \<and>
   (rewardType offer = Percentage \<and> rate offer \<le> 0 \<longrightarrow> recalcOfferProgress offer = offer)"
  by (simp add: recalcOfferProgress_def Let_def)

theorem recalcOfferProgress_frame_witness:
  "rewardType (exampleOffer\<lparr>rate := 0, cashbackEarned := 10\<rparr>) = Percentage \<and>
   rate (exampleOffer\<lparr>rate := 0, cashbackEarned := 10\<rparr>) \<le> 0 \<and>
   recalcOfferProgress (exampleOffer\<lparr>rate := 0, cashbackEarned := 10\<rparr>) =
     exampleOffer\<lparr>rate := 0, cashbackEarned := 10\<rparr> \<and>
   recalcOfferProgress (exampleOffer\<lparr>totalSpendTracked := 1200\<rparr>) =
     exampleOffer\<lparr>totalSpendTracked := 1200, cashbackEarned := 50\<rparr>"
  using recalcOfferProgress_frame [of "exampleOffer\<lparr>rate := 0, cashbackEarned := 10\<rparr>"]
    recalcOfferProgress_frame [of "exampleOffer\<lparr>totalSpendTracked := 1200\<rparr>"]
  by (simp add: exampleOffer_def recalcOfferProgress_def)

section \<open>Properties of the persistence layer\<close>

subsection \<open>Tables\<close>

lemma find_replace:
  "find (\<lambda>x. key x = k) (map (\<lambda>x. if key x = key r then r else x) xs) =
     (if k = key r then (if list_ex (\<lambda>x. key x = key r) xs then Some r else None)
      else find (\<lambda>x. key x = k) xs)"
  by (induction xs) auto

lemma find_snoc:
  "find P (xs @ [r]) =
     (case find P xs of Some y \<Rightarrow> Some y | None \<Rightarrow> if P r then Some r else None)"
  by (induction xs) auto

lemma find_None_list_ex: "find P xs = None \<longleftrightarrow> \<not> list_ex P xs"
  by (auto simp add: find_None_iff list_ex_iff)

lemma table_get_put:
  "table_get key (table_put key tbl r) k = (if k = key r then Some r else table_get key tbl k)"
proof (cases "list_ex (\<lambda>x. key x = key r) tbl")
  case True
  then show ?thesis
    by (simp add: table_get_def table_put_def find_replace)
next
  case False
  then have "find (\<lambda>x. key x = key r) tbl = None"
    by (simp add: find_None_list_ex)
  with False show ?thesis
    by (auto simp add: table_get_def table_put_def find_snoc split: option.splits)
qed

lemma table_get_key: "table_get key tbl k = Some r \<Longrightarrow> key r = k"
  by (auto simp add: table_get_def find_Some_iff)

subsection \<open>Archiving\<close>

lemma archiveOffer_credited:
  assumes "table_get ident (offers db) offerId = Some offer"
    and "creditedToLifetime offer = Some True"
  shows "archiveOffer clock offerId (Some db) =
     Inr (db\<lparr>offers := table_put ident (offers db)
        ((recalcOfferProgress offer)
           \<lparr>archivedAt :=
              Some (nullish (archivedAt (recalcOfferProgress offer)) (now_archivedAt clock)),
            updatedAt := now_updatedAt clock,
            status := Archived\<rparr>)\<rparr>)"
  using assms
  by (simp add: archiveOffer_def getDb_def Let_def recalcOfferProgress_credited computeStatus_def)

lemma nearest_cent:
  fixes a :: real
  shows "\<bar>of_int (if a * 100 - of_int \<lfloor>a * 100\<rfloor> = 1 / 2 \<and> \<not> t
                    then \<lfloor>a * 100\<rfloor> else \<lfloor>a * 100 + 1 / 2\<rfloor>) / 100 - a\<bar> \<le> 1 / 200"
proof (cases "a * 100 - of_int \<lfloor>a * 100\<rfloor> = 1 / 2 \<and> \<not> t")
  case True
  then have "a = of_int \<lfloor>a * 100\<rfloor> / 100 + 1 / 200" by linarith
  then have "\<bar>of_int \<lfloor>a * 100\<rfloor> / 100 - a\<bar> \<le> 1 / 200" by linarith
  then show ?thesis unfolding if_P [OF True] .
next
  case False
  have "of_int \<lfloor>a * 100 + 1 / 2\<rfloor> \<le> a * 100 + 1 / 2"
    "a * 100 + 1 / 2 < of_int \<lfloor>a * 100 + 1 / 2\<rfloor> + 1"
    by linarith+
  then have "\<bar>of_int \<lfloor>a * 100 + 1 / 2\<rfloor> / 100 - a\<bar> \<le> 1 / 200" by linarith
  then show ?thesis unfolding if_not_P [OF False] .
qed

lemma toFixed2_close: "\<bar>toFixed2 t x - x\<bar> \<le> 1 / 200"
proof (cases "x < 0")
  case True
  show ?thesis
  proof (cases "- x \<ge> 10 ^ 21")
    case big: True
    with True show ?thesis by (simp add: toFixed2_def)
  next
    case False
    with True have "toFixed2 t x =
        - (of_int (if (- x) * 100 - of_int \<lfloor>(- x) * 100\<rfloor> = 1 / 2 \<and> \<not> t
                    then \<lfloor>(- x) * 100\<rfloor> else \<lfloor>(- x) * 100 + 1 / 2\<rfloor>) / 100)"
      unfolding toFixed2_def Let_def by (simp only: if_True if_False)
    with nearest_cent [of "- x" t] show ?thesis by linarith
  qed
next
  case False
  show ?thesis
  proof (cases "x \<ge> 10 ^ 21")
    case True
    with False show ?thesis by (simp add: toFixed2_def)
  next
    case small: False
    with False have "toFixed2 t x =
        of_int (if x * 100 - of_int \<lfloor>x * 100\<rfloor> = 1 / 2 \<and> \<not> t
                    then \<lfloor>x * 100\<rfloor> else \<lfloor>x * 100 + 1 / 2\<rfloor>) / 100"
      unfolding toFixed2_def Let_def by (simp only: if_True if_False)
    with nearest_cent [of x t] show ?thesis by linarith
  qed
qed

lemma toFixed2_cents:
  assumes "\<bar>x\<bar> < 10 ^ 21"
  shows "\<exists>n::int. toFixed2 t x = of_int n / 100"
proof (cases "x < 0")
  case True
  with assms have "\<not> - x \<ge> 10 ^ 21" by simp
  with True have "toFixed2 t x =
        - (of_int (if (- x) * 100 - of_int \<lfloor>(- x) * 100\<rfloor> = 1 / 2 \<and> \<not> t
                    then \<lfloor>(- x) * 100\<rfloor> else \<lfloor>(- x) * 100 + 1 / 2\<rfloor>) / 100)"
    unfolding toFixed2_def Let_def by (simp only: if_True if_False)
  then have "toFixed2 t x =
        of_int (- (if (- x) * 100 - of_int \<lfloor>(- x) * 100\<rfloor> = 1 / 2 \<and> \<not> t
                    then \<lfloor>(- x) * 100\<rfloor> else \<lfloor>(- x) * 100 + 1 / 2\<rfloor>)) / 100"
    by (simp only: of_int_minus minus_divide_left)
  then show ?thesis by (rule exI)
next
  case False
  with assms have "\<not> x \<ge> 10 ^ 21" by simp
  with False have "toFixed2 t x =
        of_int (if x * 100 - of_int \<lfloor>x * 100\<rfloor> = 1 / 2 \<and> \<not> t
                    then \<lfloor>x * 100\<rfloor> else \<lfloor>x * 100 + 1 / 2\<rfloor>) / 100"
    unfolding toFixed2_def Let_def by (simp only: if_True if_False)
  then show ?thesis by (rule exI)
qed

lemma archiveOffer_uncredited:
  assumes "table_get ident (offers db) offerId = Some offer"
    and "creditedToLifetime offer \<noteq> Some True"
  shows "archiveOffer clock offerId (Some db) =
     Inr (db\<lparr>stats :=
             table_put stats_ident (stats (snd (getOrCreateStats (now_statsCreated clock) db)))
               ((fst (getOrCreateStats (now_statsCreated clock) db))
                  \<lparr>lifetimeCashbackEarned :=
                     toFixed2 (sum_tie_up clock)
                       (lifetimeCashbackEarned (fst (getOrCreateStats (now_statsCreated clock) db))
                        + cashbackEarned (recalcOfferProgress offer)),
                   lastUpdatedAt := now_statsUpdated clock\<rparr>),
           offers := table_put ident (offers db)
             ((recalcOfferProgress offer)
                \<lparr>archivedAt :=
                   Some (nullish (archivedAt (recalcOfferProgress offer)) (now_archivedAt clock)),
                 updatedAt := now_updatedAt clock,
                 creditedToLifetime := Some True,
                 status := Archived\<rparr>)\<rparr>)"
  using assms
  by (simp add: archiveOffer_def getDb_def Let_def recalcOfferProgress_credited computeStatus_def
      getOrCreateStats_def split: option.splits prod.splits)

lemma getOrCreateStats_fst:
  "stats_ident (fst (getOrCreateStats now db)) = STATS_KEY \<and>
   lifetimeCashbackEarned (fst (getOrCreateStats now db)) = lifetimeTotal (stats db)"
  by (auto simp add: getOrCreateStats_def lifetimeTotal_def Let_def
      dest: table_get_key split: option.splits)

lemma archiveOffer_first_call:
  assumes found: "table_get ident (offers db) offerId = Some offer"
  shows "\<exists>db1 stored.
     archiveOffer clock offerId (Some db) = Inr db1 \<and>
     table_get ident (offers db1) offerId = Some stored \<and>
     creditedToLifetime stored = Some True \<and>
     status stored = Archived \<and>
     cashbackEarned stored = cashbackEarned (recalcOfferProgress offer) \<and>
     (creditedToLifetime offer = Some True \<longrightarrow> stats db1 = stats db) \<and>
     (creditedToLifetime offer \<noteq> Some True \<longrightarrow>
        (\<exists>st. table_get stats_ident (stats db1) STATS_KEY = Some st \<and>
              lifetimeCashbackEarned st =
                toFixed2 (sum_tie_up clock)
                  (lifetimeTotal (stats db) + cashbackEarned (recalcOfferProgress offer))))"
proof -
  have key: "ident (recalcOfferProgress offer) = offerId"
    using table_get_key [OF found] by (simp add: recalcOfferProgress_ident)
  show ?thesis
  proof (cases "creditedToLifetime offer = Some True")
    case True
    show ?thesis
      using True key
      by (simp add: archiveOffer_credited [OF found True] table_get_put
          recalcOfferProgress_credited)
  next
    case False
    show ?thesis
      using False key getOrCreateStats_fst [of "now_statsCreated clock" db]
      by (simp add: archiveOffer_uncredited [OF found False] table_get_put)
  qed
qed

lemma archiveOffer_credited_stats:
  assumes "table_get ident (offers db) offerId = Some offer"
    and "creditedToLifetime offer = Some True"
  shows "\<exists>db1. archiveOffer clock offerId (Some db) = Inr db1 \<and> stats db1 = stats db"
  by (simp add: archiveOffer_credited [OF assms])

text \<open>
  Claim C4, as the code has it: two calls of \<open>archiveOffer\<close> on an existing offer both
  complete. After the first, the stored offer has \<open>creditedToLifetime\<close> set and holds the
  final \<open>cashbackEarned\<close>; if the offer was not credited before, the singleton's
  \<open>lifetimeCashbackEarned\<close> is the previous total plus that final \<open>cashbackEarned\<close>
  rounded to cents: it differs from the sum by less than one cent and, for a sum below
  \<open>10^21\<close> in magnitude, is a whole number of cents; if the offer was credited before,
  the stats table is untouched. The second call leaves the stats table unchanged.
\<close>

theorem archiveOffer_twice_credits_once:
  assumes found: "table_get ident (offers db) offerId = Some offer"
  shows "\<exists>db1 db2 stored.
     archiveOffer clock1 offerId (Some db) = Inr db1 \<and>
     archiveOffer clock2 offerId (Some db1) = Inr db2 \<and>
     table_get ident (offers db1) offerId = Some stored \<and>
     creditedToLifetime stored = Some True \<and>
     cashbackEarned stored = cashbackEarned (recalcOfferProgress offer) \<and>
     (creditedToLifetime offer \<noteq> Some True \<longrightarrow>
        (\<exists>st. table_get stats_ident (stats db1) STATS_KEY = Some st \<and>
              \<bar>lifetimeCashbackEarned st -
                 (lifetimeTotal (stats db) + cashbackEarned (recalcOfferProgress offer))\<bar>
                < 1 / 100 \<and>
              (\<bar>lifetimeTotal (stats db) + cashbackEarned (recalcOfferProgress offer)\<bar> < 10 ^ 21
               \<longrightarrow> (\<exists>n::int. lifetimeCashbackEarned st = of_int n / 100)))) \<and>
     (creditedToLifetime offer = Some True \<longrightarrow> stats db1 = stats db) \<and>
     stats db2 = stats db1"
proof -
  let ?sum = "lifetimeTotal (stats db) + cashbackEarned (recalcOfferProgress offer)"
  from archiveOffer_first_call [OF found, of clock1]
  obtain db1 stored where
    first: "archiveOffer clock1 offerId (Some db) = Inr db1"
    and stored: "table_get ident (offers db1) offerId = Some stored"
    and credited: "creditedToLifetime stored = Some True"
    and earned: "cashbackEarned stored = cashbackEarned (recalcOfferProgress offer)"
    and already: "creditedToLifetime offer = Some True \<longrightarrow> stats db1 = stats db"
    and rounded: "creditedToLifetime offer \<noteq> Some True \<longrightarrow>
        (\<exists>st. table_get stats_ident (stats db1) STATS_KEY = Some st \<and>
              lifetimeCashbackEarned st = toFixed2 (sum_tie_up clock1) ?sum)"
    by blast
  have close: "\<bar>toFixed2 (sum_tie_up clock1) ?sum - ?sum\<bar> < 1 / 100"
    using toFixed2_close [of "sum_tie_up clock1" ?sum] by linarith
  have cents: "\<bar>?sum\<bar> < 10 ^ 21 \<longrightarrow>
      (\<exists>n::int. toFixed2 (sum_tie_up clock1) ?sum = of_int n / 100)"
    using toFixed2_cents [of ?sum "sum_tie_up clock1"] by blast
  from rounded close cents
  have fresh: "creditedToLifetime offer \<noteq> Some True \<longrightarrow>
        (\<exists>st. table_get stats_ident (stats db1) STATS_KEY = Some st \<and>
              \<bar>lifetimeCashbackEarned st - ?sum\<bar> < 1 / 100 \<and>
              (\<bar>?sum\<bar> < 10 ^ 21 \<longrightarrow> (\<exists>n::int. lifetimeCashbackEarned st = of_int n / 100)))"
    by auto
  from archiveOffer_credited_stats [OF stored credited, of clock2]
  obtain db2 where
    second: "archiveOffer clock2 offerId (Some db1) = Inr db2" and same: "stats db2 = stats db1"
    by blast
  from first second stored credited earned already fresh same show ?thesis
    by blast
qed

theorem archiveOffer_twice_credits_once_witness:
  "table_get ident (offers exampleStore) ''o1'' = Some roundingOffer \<and>
   creditedToLifetime roundingOffer \<noteq> Some True \<and>
   archiveOffer exampleClock ''o1'' (Some exampleStore) =
     Inr \<lparr>offers = [roundingOffer\<lparr>cashbackEarned := 303 / 1000, status := Archived,
                      archivedAt := Some 5000, updatedAt := 5001,
                      creditedToLifetime := Some True\<rparr>],
          stats = [\<lparr>stats_ident = ''app'', lifetimeCashbackEarned = 3 / 10,
                    lastUpdatedAt = 5003\<rparr>]\<rparr> \<and>
   archiveOffer laterClock ''o1''
     (Some \<lparr>offers = [roundingOffer\<lparr>cashbackEarned := 303 / 1000, status := Archived,
                      archivedAt := Some 5000, updatedAt := 5001,
                      creditedToLifetime := Some True\<rparr>],
          stats = [\<lparr>stats_ident = ''app'', lifetimeCashbackEarned = 3 / 10,
                    lastUpdatedAt = 5003\<rparr>]\<rparr>) =
     Inr \<lparr>offers = [roundingOffer\<lparr>cashbackEarned := 303 / 1000, status := Archived,
                      archivedAt := Some 5000, updatedAt := 9001,
                      creditedToLifetime := Some True\<rparr>],
          stats = [\<lparr>stats_ident = ''app'', lifetimeCashbackEarned = 3 / 10,
                    lastUpdatedAt = 5003\<rparr>]\<rparr> \<and>
   \<bar>(3 / 10 :: real) - (lifetimeTotal (stats exampleStore) + 303 / 1000)\<bar> < 1 / 100 \<and>
   \<bar>lifetimeTotal (stats exampleStore) + 303 / 1000\<bar> < 10 ^ 21 \<and>
   (3 / 10 :: real) = of_int 30 / 100"
  using archiveOffer_twice_credits_once
    [of exampleStore "''o1''" roundingOffer exampleClock laterClock]
  by (simp add: exampleStore_def roundingOffer_def exampleOffer_def exampleClock_def
      laterClock_def archiveOffer_def getDb_def table_get_def table_put_def
      recalcOfferProgress_def computeStatus_def getOrCreateStats_def STATS_KEY_def
      toFixed2_def lifetimeTotal_def nullish_def Let_def)

text \<open>
  The tie of \<open>tieOffer\<close>: with the double of the sum below the tie, as it is for five
  per cent of \<open>12.10\<close>, the credited total is \<open>0.60\<close>, half a cent from \<open>0.605\<close>.
\<close>

lemma archiveOffer_tie_example:
  "archiveOffer exampleClock ''o1'' (Some tieStore) =
     Inr \<lparr>offers = [tieOffer\<lparr>cashbackEarned := 605 / 1000, status := Archived,
                      archivedAt := Some 5000, updatedAt := 5001,
                      creditedToLifetime := Some True\<rparr>],
          stats = [\<lparr>stats_ident = ''app'', lifetimeCashbackEarned = 3 / 5,
                    lastUpdatedAt = 5003\<rparr>]\<rparr>"
  by (simp add: tieStore_def tieOffer_def exampleOffer_def exampleClock_def
      archiveOffer_def getDb_def table_get_def table_put_def
      recalcOfferProgress_def computeStatus_def getOrCreateStats_def STATS_KEY_def
      toFixed2_def nullish_def Let_def)

text \<open>
  A percentage offer at rate \<open>0.03\<close> with \<open>10.10\<close> of tracked spend earns \<open>0.303\<close>;
  archiving it moves the lifetime total from \<open>0\<close> to \<open>0.30\<close>, not to \<open>0.303\<close>.
\<close>

theorem archiveOffer_rounding_counterexample:
  "archiveOffer exampleClock ''o1'' (Some exampleStore) =
     Inr \<lparr>offers = [roundingOffer\<lparr>cashbackEarned := 303 / 1000, status := Archived,
                      archivedAt := Some 5000, updatedAt := 5001,
                      creditedToLifetime := Some True\<rparr>],
          stats = [\<lparr>stats_ident = ''app'', lifetimeCashbackEarned = 3 / 10,
                    lastUpdatedAt = 5003\<rparr>]\<rparr> \<and>
   map lifetimeCashbackEarned (stats exampleStore) = [0] \<and>
   cashbackEarned (recalcOfferProgress roundingOffer) = 303 / 1000 \<and>
   (3 / 10 :: real) \<noteq> 0 + 303 / 1000"
  by (simp add: exampleStore_def roundingOffer_def exampleOffer_def exampleClock_def
      archiveOffer_def getDb_def table_get_def table_put_def
      recalcOfferProgress_def computeStatus_def getOrCreateStats_def STATS_KEY_def
      toFixed2_def nullish_def Let_def)

text \<open>
  Claim C9: where IndexedDB is available, \<open>archiveOffer\<close> with an id that matches no
  stored offer completes without an error and returns the store as it was: no offer is
  written and the stats table is neither modified nor created.
\<close>

theorem archiveOffer_missing:
  "table_get ident (offers db) offerId = None \<Longrightarrow>
   archiveOffer clock offerId (Some db) = Inr db"
  by (simp add: archiveOffer_def getDb_def)

theorem archiveOffer_missing_witness:
  "table_get ident (offers exampleStore) ''gone'' = None \<and>
   archiveOffer exampleClock ''gone'' (Some exampleStore) = Inr exampleStore"
  using archiveOffer_missing [of exampleStore "''gone''" exampleClock]
  by (simp add: exampleStore_def roundingOffer_def exampleOffer_def table_get_def)

subsection \<open>Schema upgrades\<close>

lemma upgradeOfferV2_idem: "upgradeOfferV2 (upgradeOfferV2 r) = upgradeOfferV2 r"
  by (simp add: upgradeOfferV2_def Let_def truthy_def)

lemma upgradeOfferV3_idem: "upgradeOfferV3 (upgradeOfferV3 r) = upgradeOfferV3 r"
  by (cases "truthy (rewardType_raw r)"; cases "rewardType_raw r = Some ''percentage''";
      cases "rewardAmount_raw r"; cases "spendThreshold_raw r"; cases "rate_raw r")
     (simp_all add: upgradeOfferV3_def Let_def truthy_def)

lemma upgradeOfferV3_rewardType:
  "truthy (rewardType_raw r) \<Longrightarrow> rewardType_raw (upgradeOfferV3 r) = rewardType_raw r"
  by (cases "rewardType_raw r = Some ''percentage''"; cases "rate_raw r")
     (simp_all add: upgradeOfferV3_def Let_def)

lemma upgradeOfferV3_rewardAmount:
  "rewardAmount_raw r \<noteq> None \<Longrightarrow> rewardAmount_raw (upgradeOfferV3 r) = rewardAmount_raw r"
  by (cases "truthy (rewardType_raw r)"; cases "rewardType_raw r = Some ''percentage''";
      cases "rewardAmount_raw r"; cases "spendThreshold_raw r"; cases "rate_raw r")
     (simp_all add: upgradeOfferV3_def Let_def)

lemma upgradeOfferV3_spendThreshold:
  "spendThreshold_raw r \<noteq> None \<Longrightarrow>
   spendThreshold_raw (upgradeOfferV3 r) = spendThreshold_raw r"
  by (cases "truthy (rewardType_raw r)"; cases "rewardType_raw r = Some ''percentage''";
      cases "rewardAmount_raw r"; cases "rate_raw r")
     (simp_all add: upgradeOfferV3_def Let_def)

lemma upgradeOfferV3_populated:
  "truthy (rewardType_raw r) \<Longrightarrow> rewardAmount_raw r \<noteq> None \<Longrightarrow>
   spendThreshold_raw r \<noteq> None \<Longrightarrow> upgradeOfferV3 r = r"
  by (cases "rewardType_raw r = Some ''percentage''"; cases "rate_raw r")
     (simp_all add: upgradeOfferV3_def Let_def)

lemma upgradeStatsV2_existing:
  "table_get stats_ident statsTable ''app'' \<noteq> None \<Longrightarrow>
   upgradeStatsV2 now statsTable = statsTable"
  by (auto simp add: upgradeStatsV2_def)

lemma upgradeStatsV2_idem:
  "upgradeStatsV2 now' (upgradeStatsV2 now statsTable) = upgradeStatsV2 now statsTable"
proof (cases "table_get stats_ident statsTable ''app''")
  case None
  then have "table_get stats_ident (upgradeStatsV2 now statsTable) ''app'' \<noteq> None"
    by (simp add: upgradeStatsV2_def table_get_put)
  then show ?thesis by (rule upgradeStatsV2_existing)
next
  case (Some a)
  then show ?thesis by (simp add: upgradeStatsV2_def)
qed

text \<open>
  Claim C8: both upgrade callbacks are idempotent, on single offers and on whole tables,
  and they never overwrite a populated property: a truthy \<open>status\<close>, a non-null
  \<open>creditedToLifetime\<close> and a present \<open>archivedAt\<close> survive the version 2 upgrade; a
  truthy \<open>rewardType\<close>, a non-null \<open>rewardAmount\<close> and a non-null \<open>spendThreshold\<close>
  survive the version 3 upgrade; an offer with all three populated is returned as it is;
  and the version 2 upgrade leaves a stats table that holds the singleton unchanged.
\<close>

theorem upgrades_preserve_populated:
  "upgradeOfferV2 (upgradeOfferV2 r) = upgradeOfferV2 r \<and>
   upgradeOfferV3 (upgradeOfferV3 r) = upgradeOfferV3 r \<and>
   (truthy (status_raw r) \<longrightarrow> status_raw (upgradeOfferV2 r) = status_raw r) \<and>
   (creditedToLifetime_raw r \<noteq> None \<longrightarrow>
      creditedToLifetime_raw (upgradeOfferV2 r) = creditedToLifetime_raw r) \<and>
   (archivedAt_raw r \<noteq> None \<longrightarrow> archivedAt_raw (upgradeOfferV2 r) = archivedAt_raw r) \<and>
   (truthy (status_raw r) \<and> creditedToLifetime_raw r \<noteq> None \<and> archivedAt_raw r \<noteq> None \<longrightarrow>
      upgradeOfferV2 r = r) \<and>
   (truthy (rewardType_raw r) \<longrightarrow> rewardType_raw (upgradeOfferV3 r) = rewardType_raw r) \<and>
   (rewardAmount_raw r \<noteq> None \<longrightarrow> rewardAmount_raw (upgradeOfferV3 r) = rewardAmount_raw r) \<and>
   (spendThreshold_raw r \<noteq> None \<longrightarrow>
      spendThreshold_raw (upgradeOfferV3 r) = spendThreshold_raw r) \<and>
   (truthy (rewardType_raw r) \<and> rewardAmount_raw r \<noteq> None \<and> spendThreshold_raw r \<noteq> None \<longrightarrow>
      upgradeOfferV3 r = r) \<and>
   (table_get stats_ident statsTable ''app'' \<noteq> None \<longrightarrow>
      upgradeStatsV2 now statsTable = statsTable) \<and>
   upgradeV2 now' (upgradeV2 now tx) = upgradeV2 now tx \<and>
   upgradeV3 (upgradeV3 offerTable) = upgradeV3 offerTable"
proof -
  have v2: "truthy (status_raw r) \<longrightarrow> status_raw (upgradeOfferV2 r) = status_raw r"
    "creditedToLifetime_raw r \<noteq> None \<longrightarrow>
      creditedToLifetime_raw (upgradeOfferV2 r) = creditedToLifetime_raw r"
    "archivedAt_raw r \<noteq> None \<longrightarrow> archivedAt_raw (upgradeOfferV2 r) = archivedAt_raw r"
    "truthy (status_raw r) \<and> creditedToLifetime_raw r \<noteq> None \<and> archivedAt_raw r \<noteq> None \<longrightarrow>
      upgradeOfferV2 r = r"
    by (simp_all add: upgradeOfferV2_def Let_def)
  have v3: "truthy (rewardType_raw r) \<longrightarrow> rewardType_raw (upgradeOfferV3 r) = rewardType_raw r"
    "rewardAmount_raw r \<noteq> None \<longrightarrow> rewardAmount_raw (upgradeOfferV3 r) = rewardAmount_raw r"
    "spendThreshold_raw r \<noteq> None \<longrightarrow>
      spendThreshold_raw (upgradeOfferV3 r) = spendThreshold_raw r"
    "truthy (rewardType_raw r) \<and> rewardAmount_raw r \<noteq> None \<and> spendThreshold_raw r \<noteq> None \<longrightarrow>
      upgradeOfferV3 r = r"
    using upgradeOfferV3_rewardType [of r] upgradeOfferV3_rewardAmount [of r]
      upgradeOfferV3_spendThreshold [of r] upgradeOfferV3_populated [of r]
    by blast+
  have tables: "upgradeV2 now' (upgradeV2 now tx) = upgradeV2 now tx"
    "upgradeV3 (upgradeV3 offerTable) = upgradeV3 offerTable"
    by (simp_all add: upgradeV2_def upgradeV3_def upgradeOfferV2_idem upgradeOfferV3_idem
        upgradeStatsV2_idem comp_def)
  have singleton: "table_get stats_ident statsTable ''app'' \<noteq> None \<longrightarrow>
      upgradeStatsV2 now statsTable = statsTable"
    using upgradeStatsV2_existing [of statsTable now] by blast
  show ?thesis
    by (intro conjI upgradeOfferV2_idem upgradeOfferV3_idem v2 v3 tables singleton)
qed

theorem upgrades_preserve_populated_witness:
  "truthy (status_raw currentOffer) \<and> creditedToLifetime_raw currentOffer \<noteq> None \<and>
   archivedAt_raw currentOffer \<noteq> None \<and> truthy (rewardType_raw currentOffer) \<and>
   rewardAmount_raw currentOffer \<noteq> None \<and> spendThreshold_raw currentOffer \<noteq> None \<and>
   table_get stats_ident (stats exampleStore) ''app'' \<noteq> None \<and>
   upgradeOfferV2 currentOffer = currentOffer \<and>
   upgradeOfferV3 currentOffer = currentOffer \<and>
   upgradeStatsV2 42 (stats exampleStore) = stats exampleStore \<and>
   upgradeV2 43 (upgradeV2 42 ([legacyOffer], [])) = upgradeV2 42 ([legacyOffer], []) \<and>
   upgradeV2 42 ([legacyOffer], []) =
     ([legacyOffer\<lparr>status_raw := Some ''active'', creditedToLifetime_raw := Some False,
         archivedAt_raw := Some None\<rparr>],
      [\<lparr>stats_ident = ''app'', lifetimeCashbackEarned = 0, lastUpdatedAt = 42\<rparr>]) \<and>
   upgradeV3 [legacyOffer] =
     [legacyOffer\<lparr>rewardType_raw := Some ''percentage'', rewardAmount_raw := Some 50,
        spendThreshold_raw := Some 1000\<rparr>]"
proof -
  have populated:
    "truthy (status_raw currentOffer)" "creditedToLifetime_raw currentOffer \<noteq> None"
    "archivedAt_raw currentOffer \<noteq> None" "truthy (rewardType_raw currentOffer)"
    "rewardAmount_raw currentOffer \<noteq> None" "spendThreshold_raw currentOffer \<noteq> None"
    by (simp_all add: currentOffer_def truthy_def)
  have existing: "table_get stats_ident (stats exampleStore) ''app'' \<noteq> None"
    by (simp add: exampleStore_def table_get_def)
  have v2: "upgradeV2 42 ([legacyOffer], []) =
     ([legacyOffer\<lparr>status_raw := Some ''active'', creditedToLifetime_raw := Some False,
         archivedAt_raw := Some None\<rparr>],
      [\<lparr>stats_ident = ''app'', lifetimeCashbackEarned = 0, lastUpdatedAt = 42\<rparr>])"
    by (simp add: legacyOffer_def truthy_def table_get_def table_put_def upgradeV2_def
        upgradeOfferV2_def upgradeStatsV2_def Let_def)
  have v3: "upgradeV3 [legacyOffer] =
     [legacyOffer\<lparr>rewardType_raw := Some ''percentage'', rewardAmount_raw := Some 50,
        spendThreshold_raw := Some 1000\<rparr>]"
    by (simp add: legacyOffer_def truthy_def upgradeV3_def upgradeOfferV3_def nullish_def Let_def)
  note inst = upgrades_preserve_populated
    [of currentOffer "stats exampleStore" 42 43 "([legacyOffer], [])" "[legacyOffer]"]
  from inst populated existing v2 v3 show ?thesis
    by blast
qed

end
